theory Spec2Isabelle
  imports Main
begin

section \<open>The widget component of \<open>src/pages/widgetCapture.tsx\<close>\<close>

text \<open>
  The component \<open>WidgetDemo\<close> embeds a third-party verification widget. Its closures
  (\<open>cleanup\<close>, \<open>initializeWidgetProcess\<close>, \<open>initializeWidget\<close>, the imperative handle) act
  on React refs and state, on the browser's timer table and on the console. The model
  passes all of that around as one record; every closure of the source is a function on
  that record, and every \<open>try\<close>/\<open>catch\<close> of the source is a case distinction on whether the
  external call raised.
\<close>

subsection \<open>Data\<close>

text \<open>A thrown JavaScript value, as the text the console would print for it.\<close>

type_synonym exn = string

record ContainerStyles =
  backgroundColor :: string
  padding :: string
  borderRadius :: string

text \<open>\<open>buttonStyles.borderRadius\<close> of the source; suffixed, the name being taken above.\<close>

record ButtonStyles =
  fontSize :: string
  borderRadius_button :: string
  width :: string

record WidgetOptions =
  targetUrl :: string
  buttonText :: string
  allowRedirection :: bool
  openWith :: string
  containerStyles :: ContainerStyles
  buttonStyles :: ButtonStyles
  containerClassName :: "string option"
  buttonClassName :: "string option"

text \<open>
  A child of the container element: the \<open>div\<close> that \<open>initializeWidget\<close> creates, with the
  generation \<open>n\<close> of its id \<open>diro-widget-inner-n\<close> and the markup the provider put into it.
\<close>

datatype node = WidgetContainer nat "string list"

text \<open>
  \<open>containerRef.current\<close>: \<open>None\<close> is \<open>null\<close>, \<open>Some kids\<close> is the container element with
  child nodes \<open>kids\<close> (\<open>innerHTML = ''\<close> is \<open>Some []\<close>).
\<close>

type_synonym dom = "node list option"

text \<open>
  The external function \<open>window.initializeDiroWidget(widgetContainer, options)\<close>. It is
  opaque: given the generation of the element it is handed and the options, it injects
  markup into that element and may raise.
\<close>

type_synonym provider = "nat \<Rightarrow> WidgetOptions \<Rightarrow> string list \<times> exn option"

text \<open>
  \<open>interface WidgetInstance\<close>: \<open>update\<close> is mandatory, \<open>destroy\<close> optional. A method is a
  closure over \<open>containerRef\<close>; it reads \<open>containerRef.current\<close> when it is called, so it
  is a function of the container at that moment, returning the container afterwards and
  the exception it raised, if any.
\<close>

record 'd WidgetInstance =
  update :: "'d \<Rightarrow> dom \<Rightarrow> dom \<times> exn option"
  destroy :: "(dom \<Rightarrow> dom \<times> exn option) option"

text \<open>
  A pending browser timer, by the callback it will run. The number carried by the first
  three is the \<open>containerKey\<close> of the render whose closure the callback is; the number
  carried by \<open>TimeoutId\<close> is the id of the interval that its callback clears.
\<close>

datatype timer =
    MountTimer nat
  | ReinitTimer nat
  | CheckInterval nat
  | TimeoutId nat

text \<open>The delay, in milliseconds, each timer is armed with.\<close>

fun delay :: "timer \<Rightarrow> nat" where
  "delay (MountTimer k) = 300"
| "delay (ReinitTimer k) = 100"
| "delay (CheckInterval k) = 200"
| "delay (TimeoutId c) = 10000"

text \<open>Only \<open>setInterval\<close> timers fire more than once.\<close>

fun repeating :: "timer \<Rightarrow> bool" where
  "repeating (CheckInterval k) = True"
| "repeating t = False"

text \<open>
  What the component does to the outside, in order: console output, calls of the
  provider (with the generation of the element and the options passed), calls of a
  handle's \<open>destroy\<close>.
\<close>

datatype log =
    ConsoleError string "exn option"
  | ConsoleWarn string
  | ProviderCalled nat WidgetOptions
  | DestroyCalled

text \<open>
  The component instance. \<open>urn\<close> is the prop; \<open>containerKey\<close> and \<open>isWidgetLoaded\<close> are the
  two \<open>useState\<close> cells; \<open>containerRef\<close>, \<open>widgetInstance\<close> and \<open>hasInitialized\<close> the three
  refs. \<open>renderKey\<close> is the \<open>containerKey\<close> of the last committed render, which is the
  value the closures of that render see; \<open>mountTimer\<close> is the \<open>timer\<close> constant of the
  \<open>[containerKey]\<close> effect of that render. \<open>initializeDiroWidget\<close> is the global
  \<open>window.initializeDiroWidget\<close> (\<open>None\<close>: its \<open>typeof\<close> is not \<open>"function"\<close>). \<open>timers\<close> is
  the browser's table of pending timers by id, \<open>nextTimer\<close> the next id it hands out.
\<close>

record 'd component =
  urn :: "string option"
  containerKey :: nat
  renderKey :: nat
  containerRef :: dom
  widgetInstance :: "'d WidgetInstance option"
  isWidgetLoaded :: bool
  hasInitialized :: bool
  initializeDiroWidget :: "provider option"
  timers :: "(nat \<times> timer) list"
  nextTimer :: nat
  mountTimer :: nat
  mounted :: bool
  trace :: "log list"

subsection \<open>Timers\<close>

definition setTimeout :: "timer \<Rightarrow> 'd component \<Rightarrow> 'd component" where
  "setTimeout t s = s\<lparr>timers := timers s @ [(nextTimer s, t)], nextTimer := Suc (nextTimer s)\<rparr>"

definition setInterval :: "timer \<Rightarrow> 'd component \<Rightarrow> 'd component" where
  "setInterval t s = s\<lparr>timers := timers s @ [(nextTimer s, t)], nextTimer := Suc (nextTimer s)\<rparr>"

definition clearTimeout :: "nat \<Rightarrow> 'd component \<Rightarrow> 'd component" where
  "clearTimeout i s = s\<lparr>timers := filter (\<lambda>p. fst p \<noteq> i) (timers s)\<rparr>"

definition clearInterval :: "nat \<Rightarrow> 'd component \<Rightarrow> 'd component" where
  "clearInterval i s = s\<lparr>timers := filter (\<lambda>p. fst p \<noteq> i) (timers s)\<rparr>"

definition console :: "log \<Rightarrow> 'd component \<Rightarrow> 'd component" where
  "console l s = s\<lparr>trace := trace s @ [l]\<rparr>"

subsection \<open>The configuration passed to the provider\<close>

text \<open>
  Lines 129-131. \<open>urn ? a : b\<close> tests truthiness: an absent \<open>urn\<close> and the empty string
  both take the second branch.
\<close>

definition targetUrl_of :: "string option \<Rightarrow> string" where
  "targetUrl_of u =
     (case u of
        None \<Rightarrow> ''https://verification.diro.io/?buttonid=O.c117bd44-8cfa-42df-99df-c4ad2ba6c6f5-Z6Jc&trackid=''
      | Some x \<Rightarrow>
          if x \<noteq> []
          then ''https://verification.diro.io/?buttonid=O.c117bd44-8cfa-42df-99df-c4ad2ba6c6f5-Z6Jc&trackid='' @ x
          else ''https://verification.diro.io/?buttonid=O.c117bd44-8cfa-42df-99df-c4ad2ba6c6f5-Z6Jc&trackid='')"

text \<open>Lines 139-154: the object literal handed to the provider.\<close>

definition widgetOptions :: "string option \<Rightarrow> WidgetOptions" where
  "widgetOptions u =
     \<lparr> targetUrl = targetUrl_of u,
       buttonText = ''Start verification'',
       allowRedirection = True,
       openWith = ''sametab'',
       containerStyles =
         \<lparr> backgroundColor = ''#ffffff'', padding = ''20px'', borderRadius = ''12px'' \<rparr>,
       buttonStyles =
         \<lparr> fontSize = ''16px'', borderRadius_button = ''12px'', width = ''webkit'' \<rparr>,
       containerClassName = None,
       buttonClassName = None \<rparr>"

subsection \<open>The closures of the component\<close>

text \<open>
  Lines 157-164: the handle \<open>initializeWidget\<close> stores. \<open>update\<close> is \<open>() => {}\<close>; \<open>destroy\<close>
  empties the container if \<open>containerRef.current\<close> is not \<open>null\<close>.
\<close>

definition simplifiedInstance :: "'d WidgetInstance" where
  "simplifiedInstance =
     \<lparr> update = (\<lambda>d c. (c, None)),
       destroy = Some (\<lambda>c. ((case c of None \<Rightarrow> None | Some kids \<Rightarrow> Some []), None)) \<rparr>"

text \<open>
  Lines 63-78. The \<open>try\<close> around \<open>destroy()\<close> catches what it raises and logs it; the two
  assignments after the \<open>try\<close> run either way. The container is emptied afterwards,
  outside the \<open>if\<close>.
\<close>

definition cleanup :: "'d component \<Rightarrow> 'd component" where
  "cleanup s =
     (let s1 =
        (case widgetInstance s of
           None \<Rightarrow> s
         | Some h \<Rightarrow>
             (case destroy h of
                None \<Rightarrow> s
              | Some d \<Rightarrow>
                  (case d (containerRef s) of
                     (c, r) \<Rightarrow>
                       (let s2 = console DestroyCalled (s\<lparr>containerRef := c\<rparr>);
                            s3 = (case r of
                                    None \<Rightarrow> s2
                                  | Some e \<Rightarrow> console (ConsoleError ''Error destroying widget:'' (Some e)) s2)
                        in s3\<lparr>widgetInstance := None, isWidgetLoaded := False\<rparr>))))
      in case containerRef s1 of
           None \<Rightarrow> s1
         | Some kids \<Rightarrow> s1\<lparr>containerRef := Some []\<rparr>)"

text \<open>
  Lines 117-172, as the closure of the render with \<open>containerKey = k\<close>. Of the statements
  inside the \<open>try\<close> only the provider call is external code, so it is the one that can
  raise; the \<open>catch\<close> logs, clears \<open>hasInitialized\<close> and resets \<open>isWidgetLoaded\<close>.
\<close>

definition initializeWidget :: "nat \<Rightarrow> 'd component \<Rightarrow> 'd component" where
  "initializeWidget k s =
     (case containerRef s of
        None \<Rightarrow> s
      | Some old \<Rightarrow>
          (let s1 = s\<lparr>containerRef := Some [WidgetContainer k []]\<rparr>
           in case initializeDiroWidget s1 of
                None \<Rightarrow> console (ConsoleError ''initializeDiroWidget is not available'' None) s1
              | Some p \<Rightarrow>
                  (case p k (widgetOptions (urn s1)) of
                     (markup, r) \<Rightarrow>
                       (let s2 = console (ProviderCalled k (widgetOptions (urn s1)))
                                   (s1\<lparr>containerRef := Some [WidgetContainer k markup]\<rparr>)
                        in case r of
                             Some e \<Rightarrow>
                               (console (ConsoleError ''Error initializing Diro widget:'' (Some e)) s2)
                                 \<lparr>hasInitialized := False, isWidgetLoaded := False\<rparr>
                           | None \<Rightarrow>
                               s2\<lparr>widgetInstance := Some simplifiedInstance, isWidgetLoaded := True\<rparr>))))"

text \<open>
  Lines 84-110, as the closure of the render with \<open>containerKey = k\<close>. The second
  component is the function the source returns: \<open>None\<close> for \<open>undefined\<close>, and
  \<open>Some (checkInterval, timeoutId)\<close> for the closure that clears those two timers.
\<close>

definition initializeWidgetProcess ::
    "nat \<Rightarrow> 'd component \<Rightarrow> 'd component \<times> (nat \<times> nat) option" where
  "initializeWidgetProcess k s =
     (if hasInitialized s then (s, None)
      else case initializeDiroWidget s of
             Some p \<Rightarrow> ((initializeWidget k s)\<lparr>hasInitialized := True\<rparr>, None)
           | None \<Rightarrow>
               (let checkInterval = nextTimer s;
                    s1 = setInterval (CheckInterval k) s;
                    timeoutId = nextTimer s1;
                    s2 = setTimeout (TimeoutId checkInterval) s1
                in (s2, Some (checkInterval, timeoutId))))"

text \<open>
  Lines 47-52. Nothing catches what \<open>update\<close> raises: the second component is the
  exception that reaches the holder.
\<close>

definition updateWidget :: "'d \<Rightarrow> 'd component \<Rightarrow> 'd component \<times> exn option" where
  "updateWidget d s =
     (case widgetInstance s of
        None \<Rightarrow> (s, None)
      | Some h \<Rightarrow> (case update h d (containerRef s) of (c, r) \<Rightarrow> (s\<lparr>containerRef := c\<rparr>, r)))"

text \<open>
  Lines 53-60. \<open>setContainerKey\<close> queues the new key, which the next render commits; the
  callback of the timer is a closure of the current render, so it carries \<open>renderKey\<close>.
\<close>

definition reinitialize :: "'d component \<Rightarrow> 'd component" where
  "reinitialize s =
     (let s1 = cleanup s;
          s2 = s1\<lparr>containerKey := containerKey s1 + 1\<rparr>;
          s3 = s2\<lparr>hasInitialized := False\<rparr>
      in setTimeout (ReinitTimer (renderKey s3)) s3)"

subsection \<open>What React and the browser do with them\<close>

text \<open>
  The first render and its effects: the container element is attached to \<open>containerRef\<close>,
  the effect of lines 80-82 registers \<open>cleanup\<close> for unmount, the effect of lines 112-115
  arms the 300 ms timer.
\<close>

definition mount :: "string option \<Rightarrow> provider option \<Rightarrow> 'd component" where
  "mount u w =
     \<lparr> urn = u, containerKey = 0, renderKey = 0, containerRef = Some [],
       widgetInstance = None, isWidgetLoaded = False, hasInitialized = False,
       initializeDiroWidget = w, timers = [(0, MountTimer 0)], nextTimer = 1,
       mountTimer = 0, mounted = True, trace = [] \<rparr>"

text \<open>
  The render React commits after a state change. When \<open>containerKey\<close> changed, the keyed
  container element is replaced by a fresh one, and the effect of lines 112-115 runs
  again: first the function its previous run returned (\<open>clearTimeout(timer)\<close>), then its
  body. A change of \<open>isWidgetLoaded\<close> alone re-runs no effect.
\<close>

definition rerender :: "'d component \<Rightarrow> 'd component" where
  "rerender s =
     (if mounted s \<and> containerKey s \<noteq> renderKey s
      then (let s1 = s\<lparr>containerRef := Some [], renderKey := containerKey s\<rparr>;
                s2 = clearTimeout (mountTimer s1) s1;
                s3 = s2\<lparr>mountTimer := nextTimer s2\<rparr>
            in setTimeout (MountTimer (renderKey s3)) s3)
      else s)"

text \<open>
  Unmount runs the functions the two effects returned, in the order of the effects:
  \<open>cleanup\<close> (line 81), then \<open>clearTimeout(timer)\<close> (line 114). The container element is
  gone afterwards. Nothing else is run: the function \<open>initializeWidgetProcess\<close> returns
  was dropped by \<open>setTimeout\<close>, which ignores what its callback returns.
\<close>

definition unmount :: "'d component \<Rightarrow> 'd component" where
  "unmount s =
     (if mounted s
      then (let s1 = cleanup s;
                s2 = clearTimeout (mountTimer s1) s1
            in s2\<lparr>containerRef := None, mounted := False\<rparr>)
      else s)"

text \<open>
  The browser runs the callback of timer \<open>i\<close>. A timer that is not pending (never armed,
  cleared, or one-shot and already run) does not fire. A one-shot timer leaves the table
  when it fires. The callbacks are those of lines 113, 57-59, 91-97 and 100-103; the
  first two drop what \<open>initializeWidgetProcess\<close> returns.
\<close>

definition fire :: "nat \<Rightarrow> 'd component \<Rightarrow> 'd component" where
  "fire i s =
     (case map_of (timers s) i of
        None \<Rightarrow> s
      | Some (MountTimer k) \<Rightarrow> fst (initializeWidgetProcess k (clearTimeout i s))
      | Some (ReinitTimer k) \<Rightarrow> fst (initializeWidgetProcess k (clearTimeout i s))
      | Some (CheckInterval k) \<Rightarrow>
          (case initializeDiroWidget s of
             None \<Rightarrow> s
           | Some p \<Rightarrow> clearInterval i ((initializeWidget k s)\<lparr>hasInitialized := True\<rparr>))
      | Some (TimeoutId c) \<Rightarrow>
          console (ConsoleWarn ''Failed to initialize widget after timeout'')
            (clearInterval c (clearTimeout i s)))"

text \<open>
  What can happen to a mounted component: the external script defines (or removes) the
  global, a timer fires, the holder calls one of the two methods of the imperative
  handle, React re-renders, React unmounts.
\<close>

datatype 'd event =
    SetProvider "provider option"
  | Fire nat
  | UpdateWidget 'd
  | Reinitialize
  | Rerender
  | Unmount

fun step :: "'d event \<Rightarrow> 'd component \<Rightarrow> 'd component" where
  "step (SetProvider w) s = s\<lparr>initializeDiroWidget := w\<rparr>"
| "step (Fire i) s = fire i s"
| "step (UpdateWidget d) s = fst (updateWidget d s)"
| "step Reinitialize s = reinitialize s"
| "step Rerender s = rerender s"
| "step Unmount s = unmount s"

fun run :: "'d event list \<Rightarrow> 'd component \<Rightarrow> 'd component" where
  "run [] s = s"
| "run (e # es) s = run es (step e s)"

subsection \<open>Predicates on component states\<close>

text \<open>
  The handle the component holds is the one \<open>initializeWidget\<close> built, and the component
  shows as loaded only while it holds one.
\<close>

definition own :: "'d component \<Rightarrow> bool" where
  "own s = (if widgetInstance s = None then \<not> isWidgetLoaded s
            else widgetInstance s = Some simplifiedInstance)"

text \<open>
  The weaker form that \<open>cleanup\<close> and \<open>reinitialize\<close> rely on: a handle that is held has a
  \<open>destroy\<close> method, the component shows as loaded only while it holds one, the rendered
  key is not ahead of the state, and the timer of the mount effect has been handed out.
\<close>

definition coherent :: "'d component \<Rightarrow> bool" where
  "coherent s =
     ((case widgetInstance s of None \<Rightarrow> \<not> isWidgetLoaded s | Some h \<Rightarrow> destroy h \<noteq> None)
      \<and> renderKey s \<le> containerKey s \<and> mountTimer s < nextTimer s)"

definition scheduled :: "'d component \<Rightarrow> bool" where
  "scheduled s = (renderKey s \<le> containerKey s \<and> mountTimer s < nextTimer s)"

text \<open>A handle is held only while the re-entry guard is set.\<close>

definition guarded :: "'d component \<Rightarrow> bool" where
  "guarded s = (widgetInstance s = None \<or> hasInitialized s)"

text \<open>How often a handle's \<open>destroy\<close> was called, read off the trace.\<close>

definition destroyCalls :: "log list \<Rightarrow> nat" where
  "destroyCalls ls = length (filter (\<lambda>l. l = DestroyCalled) ls)"

text \<open>Nothing is pending, nothing is loaded, and no render is outstanding.\<close>

definition quiescent :: "'d component \<Rightarrow> bool" where
  "quiescent s = (timers s = [] \<and> \<not> isWidgetLoaded s \<and> containerKey s = renderKey s)"

section \<open>Properties\<close>

subsection \<open>What \<open>cleanup\<close> changes\<close>

lemmas timer_defs = setTimeout_def setInterval_def clearTimeout_def clearInterval_def console_def

lemma hasInitialized_cleanup: "hasInitialized (cleanup s) = hasInitialized s"
  by (simp add: cleanup_def timer_defs Let_def split: option.splits prod.splits)

lemma timers_cleanup: "timers (cleanup s) = timers s"
  by (simp add: cleanup_def timer_defs Let_def split: option.splits prod.splits)

lemma keys_cleanup:
  "renderKey (cleanup s) = renderKey s \<and> containerKey (cleanup s) = containerKey s \<and>
   mountTimer (cleanup s) = mountTimer s \<and> nextTimer (cleanup s) = nextTimer s \<and>
   mounted (cleanup s) = mounted s"
  by (simp add: cleanup_def timer_defs Let_def split: option.splits prod.splits)

lemma containerRef_cleanup:
  "containerRef (cleanup s) = None \<or> containerRef (cleanup s) = Some []"
  by (simp add: cleanup_def timer_defs Let_def split: option.splits prod.splits)

lemma widgetInstance_cleanup:
  "widgetInstance (cleanup s) =
     (case widgetInstance s of None \<Rightarrow> None
      | Some h \<Rightarrow> (case destroy h of None \<Rightarrow> Some h | Some d \<Rightarrow> None))"
  by (simp add: cleanup_def timer_defs Let_def split: option.splits prod.splits)

lemma not_loaded_cleanup: "\<not> isWidgetLoaded s \<Longrightarrow> \<not> isWidgetLoaded (cleanup s)"
  by (simp add: cleanup_def timer_defs Let_def split: option.splits prod.splits)

lemma isWidgetLoaded_cleanup: "coherent s \<Longrightarrow> \<not> isWidgetLoaded (cleanup s)"
  by (auto simp add: coherent_def cleanup_def timer_defs Let_def split: option.splits prod.splits)

lemma widgetInstance_cleanup_coherent: "coherent s \<Longrightarrow> widgetInstance (cleanup s) = None"
  by (auto simp add: coherent_def widgetInstance_cleanup split: option.splits)

text \<open>A state with nothing to destroy and an empty container is a fixed point.\<close>

lemma cleanup_settled:
  assumes "case widgetInstance s of None \<Rightarrow> True | Some h \<Rightarrow> destroy h = None"
    and "containerRef s = None \<or> containerRef s = Some []"
  shows "cleanup s = s"
  using assms by (auto simp add: cleanup_def split: option.splits)

lemma cleanup_idem: "cleanup (cleanup s) = cleanup s"
proof (rule cleanup_settled)
  show "case widgetInstance (cleanup s) of None \<Rightarrow> True | Some h \<Rightarrow> destroy h = None"
    by (simp add: widgetInstance_cleanup split: option.splits)
  show "containerRef (cleanup s) = None \<or> containerRef (cleanup s) = Some []"
    by (rule containerRef_cleanup)
qed

lemma trace_cleanup_no_handle: "widgetInstance s = None \<Longrightarrow> trace (cleanup s) = trace s"
  by (simp add: cleanup_def split: option.splits)

lemma trace_cleanup_no_destroy:
  "widgetInstance s = Some h \<Longrightarrow> destroy h = None \<Longrightarrow> trace (cleanup s) = trace s"
  by (simp add: cleanup_def split: option.splits)

lemma trace_cleanup_destroy:
  "widgetInstance s = Some h \<Longrightarrow> destroy h = Some d \<Longrightarrow>
   trace (cleanup s) =
     trace s @ DestroyCalled #
       (case snd (d (containerRef s)) of
          None \<Rightarrow> []
        | Some e \<Rightarrow> [ConsoleError ''Error destroying widget:'' (Some e)])"
  by (simp add: cleanup_def console_def Let_def split: option.splits prod.splits)

lemma destroyCalls_cleanup:
  "destroyCalls (trace (cleanup s)) =
     destroyCalls (trace s) +
       (case widgetInstance s of None \<Rightarrow> 0
        | Some h \<Rightarrow> (case destroy h of None \<Rightarrow> 0 | Some d \<Rightarrow> 1))"
proof (cases "widgetInstance s")
  case None
  then show ?thesis by (simp add: trace_cleanup_no_handle)
next
  case (Some h)
  show ?thesis
  proof (cases "destroy h")
    case None
    then show ?thesis using Some by (simp add: trace_cleanup_no_destroy)
  next
    case (Some d)
    then show ?thesis using \<open>widgetInstance s = Some h\<close>
      by (simp add: trace_cleanup_destroy destroyCalls_def split: option.splits)
  qed
qed

subsection \<open>The handle a reachable component holds\<close>

lemma own_cleanup: "own s \<Longrightarrow> own (cleanup s)"
  by (auto simp add: own_def cleanup_def timer_defs Let_def split: option.splits prod.splits)

lemma own_initializeWidget: "own s \<Longrightarrow> own (initializeWidget k s)"
  by (auto simp add: own_def initializeWidget_def timer_defs Let_def split: option.splits prod.splits)

lemma own_initializeWidgetProcess: "own s \<Longrightarrow> own (fst (initializeWidgetProcess k s))"
  using own_initializeWidget [of s k]
  by (auto simp add: own_def initializeWidgetProcess_def timer_defs Let_def split: option.splits prod.splits)

lemma own_fire: "own s \<Longrightarrow> own (fire i s)"
proof -
  assume o: "own s"
  have a: "own (clearTimeout i s)" using o by (simp add: own_def clearTimeout_def)
  have b: "\<And>k. own (clearInterval i ((initializeWidget k s)\<lparr>hasInitialized := True\<rparr>))"
    using own_initializeWidget [OF o] by (simp add: own_def clearInterval_def)
  have c: "\<And>c. own (console (ConsoleWarn ''Failed to initialize widget after timeout'')
            (clearInterval c (clearTimeout i s)))"
    using o by (simp add: own_def timer_defs)
  show ?thesis
    using o b c own_initializeWidgetProcess [OF a]
    by (simp add: fire_def split: option.splits timer.splits)
qed

lemma own_updateWidget: "own s \<Longrightarrow> own (fst (updateWidget d s))"
  by (auto simp add: own_def updateWidget_def split: option.splits prod.splits)

lemma own_reinitialize: "own s \<Longrightarrow> own (reinitialize s)"
  using own_cleanup [of s] by (simp add: own_def reinitialize_def setTimeout_def Let_def)

lemma own_rerender: "own s \<Longrightarrow> own (rerender s)"
  by (simp add: own_def rerender_def timer_defs Let_def)

lemma own_unmount: "own s \<Longrightarrow> own (unmount s)"
  using own_cleanup [of s] by (simp add: own_def unmount_def timer_defs Let_def)

lemma own_step: "own s \<Longrightarrow> own (step e s)"
  by (cases e)
    (simp_all add: own_fire own_updateWidget own_reinitialize own_rerender own_unmount,
      simp add: own_def)

lemma own_run: "own s \<Longrightarrow> own (run es s)"
  by (induction es arbitrary: s) (simp_all add: own_step)

lemma own_mount: "own (mount u w)"
  by (simp add: own_def mount_def)

lemma updateWidget_own: "own s \<Longrightarrow> updateWidget d s = (s, None)"
  by (auto simp add: own_def updateWidget_def simplifiedInstance_def split: option.splits)

text \<open>
  React may detach \<open>containerRef\<close> before it runs the functions the effects returned.
  With the component's own handle that order makes no difference to the state after
  unmount.
\<close>

lemma unmount_ref_order:
  assumes "own s" and "mounted s"
  shows "unmount (s\<lparr>containerRef := None\<rparr>) = unmount s"
proof (cases "widgetInstance s")
  case None
  then show ?thesis using assms(2)
    by (simp add: unmount_def cleanup_def clearTimeout_def Let_def split: option.splits)
next
  case (Some h)
  then have "h = simplifiedInstance" using assms(1) by (simp add: own_def)
  then show ?thesis using Some assms(2)
    by (simp add: unmount_def cleanup_def simplifiedInstance_def timer_defs Let_def
        split: option.splits)
qed

subsection \<open>Keys and timer ids of a reachable component\<close>

lemma keys_initializeWidget:
  "renderKey (initializeWidget k s) = renderKey s \<and>
   containerKey (initializeWidget k s) = containerKey s \<and>
   mountTimer (initializeWidget k s) = mountTimer s \<and>
   nextTimer (initializeWidget k s) = nextTimer s"
  by (simp add: initializeWidget_def timer_defs Let_def split: option.splits prod.splits)

lemma scheduled_initializeWidgetProcess:
  "scheduled s \<Longrightarrow> scheduled (fst (initializeWidgetProcess k s))"
  by (simp add: scheduled_def initializeWidgetProcess_def keys_initializeWidget timer_defs Let_def
      split: option.splits)

lemma scheduled_fire: "scheduled s \<Longrightarrow> scheduled (fire i s)"
proof -
  assume o: "scheduled s"
  have a: "scheduled (clearTimeout i s)" using o by (simp add: scheduled_def clearTimeout_def)
  show ?thesis
    using o scheduled_initializeWidgetProcess [OF a]
    by (simp add: fire_def scheduled_def keys_initializeWidget timer_defs
        split: option.splits timer.splits)
qed

lemma scheduled_updateWidget: "scheduled s \<Longrightarrow> scheduled (fst (updateWidget d s))"
  by (simp add: scheduled_def updateWidget_def split: option.splits prod.splits)

lemma scheduled_reinitialize: "scheduled s \<Longrightarrow> scheduled (reinitialize s)"
  by (simp add: scheduled_def reinitialize_def setTimeout_def Let_def keys_cleanup)

lemma scheduled_rerender: "scheduled s \<Longrightarrow> scheduled (rerender s)"
  by (simp add: scheduled_def rerender_def timer_defs Let_def)

lemma scheduled_unmount: "scheduled s \<Longrightarrow> scheduled (unmount s)"
  by (simp add: scheduled_def unmount_def timer_defs Let_def keys_cleanup)

lemma scheduled_step: "scheduled s \<Longrightarrow> scheduled (step e s)"
  by (cases e)
    (simp_all add: scheduled_fire scheduled_updateWidget scheduled_reinitialize
      scheduled_rerender scheduled_unmount, simp add: scheduled_def)

lemma scheduled_run: "scheduled s \<Longrightarrow> scheduled (run es s)"
  by (induction es arbitrary: s) (simp_all add: scheduled_step)

text \<open>Every state a mounted component can reach is coherent.\<close>

lemma coherent_reachable: "coherent (run es (mount u w))"
proof -
  have o: "own (run es (mount u w))"
    by (rule own_run) (rule own_mount)
  have k: "scheduled (run es (mount u w))"
    by (rule scheduled_run) (simp add: scheduled_def mount_def)
  show ?thesis
    using o k
    by (auto simp add: coherent_def own_def scheduled_def simplifiedInstance_def
        split: option.splits)
qed

subsection \<open>The re-entry guard\<close>

lemma hasInitialized_guard: "hasInitialized s \<Longrightarrow> initializeWidgetProcess k s = (s, None)"
  by (simp add: initializeWidgetProcess_def)

lemma hasInitialized_reinitialize: "\<not> hasInitialized (reinitialize s)"
  by (simp add: reinitialize_def setTimeout_def Let_def)

lemma hasInitialized_fire: "hasInitialized s \<Longrightarrow> hasInitialized (fire i s)"
  by (simp add: fire_def initializeWidgetProcess_def timer_defs split: option.splits timer.splits)

lemma hasInitialized_step:
  "hasInitialized s \<Longrightarrow> e \<noteq> Reinitialize \<Longrightarrow> hasInitialized (step e s)"
  by (cases e)
    (simp_all add: hasInitialized_fire updateWidget_def rerender_def unmount_def
      hasInitialized_cleanup timer_defs Let_def split: option.splits prod.splits)

text \<open>
  The guard covers the handle: no event leaves a handle behind with the guard cleared,
  because the only places that clear it are \<open>reinitialize\<close>, after \<open>cleanup\<close> has dropped the
  handle, and the \<open>catch\<close> of \<open>initializeWidget\<close>, whose callers set it again.
\<close>

lemma widgetInstance_cleanup_own: "own s \<Longrightarrow> widgetInstance (cleanup s) = None"
  by (auto simp add: own_def widgetInstance_cleanup simplifiedInstance_def split: option.splits)

lemma guarded_initializeWidgetProcess:
  "guarded s \<Longrightarrow> guarded (fst (initializeWidgetProcess k s))"
  by (auto simp add: guarded_def initializeWidgetProcess_def timer_defs Let_def split: option.splits)

lemma guarded_fire: "guarded s \<Longrightarrow> guarded (fire i s)"
proof -
  assume g: "guarded s"
  have a: "guarded (clearTimeout i s)" using g by (simp add: guarded_def clearTimeout_def)
  show ?thesis
    using g guarded_initializeWidgetProcess [OF a]
    by (simp add: fire_def guarded_def timer_defs split: option.splits timer.splits)
qed

lemma guarded_step: "own s \<Longrightarrow> guarded s \<Longrightarrow> guarded (step e s)"
proof (cases e)
  case (Fire i)
  assume "guarded s"
  then show ?thesis using Fire by (simp add: guarded_fire)
next
  case (UpdateWidget d)
  assume "guarded s"
  then show ?thesis using UpdateWidget
    by (auto simp add: guarded_def updateWidget_def split: option.splits prod.splits)
next
  case Reinitialize
  assume "own s"
  then show ?thesis using Reinitialize
    by (simp add: guarded_def reinitialize_def setTimeout_def Let_def widgetInstance_cleanup_own)
next
  case Unmount
  assume "own s" and "guarded s"
  then show ?thesis using Unmount
    by (simp add: guarded_def unmount_def clearTimeout_def Let_def widgetInstance_cleanup_own)
qed (simp_all add: guarded_def rerender_def timer_defs Let_def)

lemma guarded_run: "own s \<Longrightarrow> guarded s \<Longrightarrow> guarded (run es s)"
  by (induction es arbitrary: s) (simp_all add: own_step guarded_step)

lemma guarded_reachable: "guarded (run es (mount u w))"
  by (rule guarded_run) (simp_all add: own_mount, simp add: guarded_def mount_def)

text \<open>
  The poll tick of lines 91-97 does not look at the guard. When \<open>reinitialize\<close> is called
  while an attempt is still polling, the timer of \<open>reinitialize\<close> starts a second poll
  interval; once the provider appears, each interval calls the provider, and the second
  call replaces the handle of the first with no \<open>destroy\<close> in between.
\<close>

lemma overlapping_polls_call_provider_twice:
  "let s = run [Fire 0, Reinitialize, Rerender, Fire 3,
                SetProvider (Some (\<lambda>k opts. ([], None))), Fire 1, Fire 5]
             (mount None None :: unit component)
   in trace s = [ProviderCalled 0 (widgetOptions None), ProviderCalled 0 (widgetOptions None)]
      \<and> destroyCalls (trace s) = 0
      \<and> containerKey s = 1"
  by (simp add: fire_def mount_def reinitialize_def rerender_def cleanup_def destroyCalls_def
      initializeWidgetProcess_def initializeWidget_def timer_defs Let_def)

subsection \<open>Polling, and the state once nothing is pending\<close>

lemma run_append: "run (xs @ ys) s = run ys (run xs s)"
  by (induction xs arbitrary: s) simp_all

lemma quiescent_step: "quiescent s \<Longrightarrow> e \<noteq> Reinitialize \<Longrightarrow> quiescent (step e s)"
proof (cases e)
  case (Fire i)
  assume "quiescent s"
  then show ?thesis using Fire by (simp add: quiescent_def fire_def)
next
  case (UpdateWidget d)
  assume "quiescent s"
  then show ?thesis using UpdateWidget
    by (simp add: quiescent_def updateWidget_def split: option.splits prod.splits)
next
  case Unmount
  assume "quiescent s"
  then show ?thesis using Unmount
    by (simp add: quiescent_def unmount_def clearTimeout_def Let_def timers_cleanup
        keys_cleanup not_loaded_cleanup)
qed (simp_all add: quiescent_def rerender_def)

lemma quiescent_run: "quiescent s \<Longrightarrow> Reinitialize \<notin> set es \<Longrightarrow> quiescent (run es s)"
proof (induction es arbitrary: s)
  case Nil
  then show ?case by simp
next
  case (Cons e es)
  have "e \<noteq> Reinitialize" using Cons.prems(2) by auto
  then have "quiescent (step e s)" using Cons.prems(1) by (simp add: quiescent_step)
  moreover have "Reinitialize \<notin> set es" using Cons.prems(2) by simp
  ultimately show ?case using Cons.IH by simp
qed

lemma fire_TimeoutId:
  "map_of (timers s) t = Some (TimeoutId c) \<Longrightarrow>
   fire t s = s\<lparr>timers := filter (\<lambda>p. fst p \<noteq> c) (filter (\<lambda>p. fst p \<noteq> t) (timers s)),
               trace := trace s @ [ConsoleWarn ''Failed to initialize widget after timeout'']\<rparr>"
  by (simp add: fire_def timer_defs)

text \<open>A poll tick that does not find the provider changes nothing, however often it runs.\<close>

lemma poll_without_provider:
  "map_of (timers s) i = Some (CheckInterval k) \<Longrightarrow> initializeDiroWidget s = None \<Longrightarrow>
   run (replicate n (Fire i)) s = s"
  by (induction n) (simp_all add: fire_def)

lemma fire_mount_without_provider:
  "fire 0 (mount u None) =
     (mount u None)\<lparr>timers := [(1, CheckInterval 0), (2, TimeoutId 1)], nextTimer := 3\<rparr>"
  by (simp add: fire_def mount_def initializeWidgetProcess_def timer_defs Let_def)

lemma polling_after_mount:
  "run (Fire 0 # replicate n (Fire 1)) (mount u None) =
     (mount u None)\<lparr>timers := [(1, CheckInterval 0), (2, TimeoutId 1)], nextTimer := 3\<rparr>"
proof -
  have "run (Fire 0 # replicate n (Fire 1)) (mount u None) =
        run (replicate n (Fire 1)) (fire 0 (mount u None))"
    by simp
  also have "\<dots> = run (replicate n (Fire 1))
      ((mount u None)\<lparr>timers := [(1, CheckInterval 0), (2, TimeoutId 1)], nextTimer := 3\<rparr>)"
    by (simp only: fire_mount_without_provider)
  also have "\<dots> = (mount u None)\<lparr>timers := [(1, CheckInterval 0), (2, TimeoutId 1)], nextTimer := 3\<rparr>"
    by (rule poll_without_provider [where k = 0]) (simp_all add: mount_def)
  finally show ?thesis .
qed

lemma timeout_after_mount:
  "run (Fire 0 # replicate n (Fire 1) @ [Fire 2]) (mount u None) =
     (mount u None)\<lparr>timers := [], nextTimer := 3,
        trace := [ConsoleWarn ''Failed to initialize widget after timeout'']\<rparr>"
proof -
  have "run (Fire 0 # replicate n (Fire 1) @ [Fire 2]) (mount u None) =
        fire 2 (run (Fire 0 # replicate n (Fire 1)) (mount u None))"
    using run_append [of "Fire 0 # replicate n (Fire 1)" "[Fire 2]" "mount u None"] by simp
  also have "\<dots> = (mount u None)\<lparr>timers := [], nextTimer := 3,
        trace := [ConsoleWarn ''Failed to initialize widget after timeout'']\<rparr>"
    by (simp only: polling_after_mount) (simp add: fire_def mount_def timer_defs)
  finally show ?thesis .
qed

subsection \<open>What \<open>reinitialize\<close> leaves behind\<close>

lemma reinitialize_unfold:
  "reinitialize s =
     (cleanup s)\<lparr>containerKey := containerKey s + 1, hasInitialized := False,
       timers := timers s @ [(nextTimer s, ReinitTimer (renderKey s))],
       nextTimer := Suc (nextTimer s)\<rparr>"
  by (simp add: reinitialize_def setTimeout_def Let_def keys_cleanup timers_cleanup)

lemma timers_rerender_reinitialize:
  assumes "coherent s" and "mounted s"
  shows "timers (rerender (reinitialize s)) =
     filter (\<lambda>p. fst p \<noteq> mountTimer s) (timers s) @
       [(nextTimer s, ReinitTimer (renderKey s)), (Suc (nextTimer s), MountTimer (containerKey s + 1))]"
proof -
  have k: "renderKey s \<le> containerKey s" and m: "mountTimer s < nextTimer s"
    using assms(1) by (simp_all add: coherent_def)
  show ?thesis
    using k m assms(2)
    by (simp add: rerender_def reinitialize_unfold keys_cleanup timer_defs Let_def)
qed

section \<open>The claims\<close>

subsection \<open>C1: an exception during the initialize attempt\<close>

text \<open>
  Claim C1: if the provider call raises during the initialize attempt, the component
  catches it locally: \<open>isWidgetLoaded\<close> is reset, the re-entry guard \<open>hasInitialized\<close> is
  left cleared so that a future attempt is permitted, the error is logged, and nothing
  reaches the holder.

  The \<open>catch\<close> of \<open>initializeWidget\<close> does clear the guard (line 169), but
  \<open>initializeWidgetProcess\<close> sets it right after \<open>initializeWidget\<close> returns (line 89, and
  line 94 on the polling path). The source evaluated on a component mounted while the
  provider is defined and raises: once the mount timer has fired the error is logged and
  the component is not loaded, but the guard is set, and a further call of
  \<open>initializeWidgetProcess\<close> returns at line 85 without trying again.
\<close>

theorem C1_guard_set_after_failed_initialize:
  "let s = fire 0 (mount None (Some (\<lambda>k opts. ([], Some ''boom''))) :: unit component)
   in hasInitialized s
      \<and> \<not> isWidgetLoaded s
      \<and> trace s = [ProviderCalled 0 (widgetOptions None),
                    ConsoleError ''Error initializing Diro widget:'' (Some ''boom'')]
      \<and> initializeWidgetProcess 0 s = (s, None)"
  by (simp add: fire_def mount_def initializeWidgetProcess_def initializeWidget_def timer_defs Let_def)

subsection \<open>C2: timers at unmount\<close>

text \<open>
  Claim C2: unmounting cancels every pending timer (the poll interval, the 10-second
  timeout, the reinitialize delay and the mount delay) and runs \<open>cleanup\<close> once, so that
  no timer callback fires after unmount.

  Unmount runs \<open>cleanup\<close> and clears the mount-delay timer, nothing else.
  \<open>initializeWidgetProcess\<close> does return the function that clears the poll interval and
  the timeout (lines 105-108; here for timers 1 and 2), but it runs as a \<open>setTimeout\<close>
  callback, which drops it. The source evaluated on a component mounted while the
  provider is not defined, whose mount timer fires before it is unmounted: both timers
  are still pending after unmount and the timeout then fires, writing its warning. The
  100 ms timer of \<open>reinitialize\<close> outlives unmount in the same way.
\<close>

theorem C2_poll_timers_survive_unmount:
  "let s = run [Fire 0, Unmount] (mount None None :: unit component)
   in \<not> mounted s
      \<and> snd (initializeWidgetProcess 0 (clearTimeout 0 (mount None None :: unit component))) = Some (1, 2)
      \<and> timers s = [(1, CheckInterval 0), (2, TimeoutId 1)]
      \<and> trace s = []
      \<and> trace (fire 2 s) = [ConsoleWarn ''Failed to initialize widget after timeout'']
      \<and> timers (run [Reinitialize, Rerender, Unmount] (mount None None :: unit component)) =
          [(1, ReinitTimer 0)]"
  by (simp add: fire_def mount_def unmount_def reinitialize_def rerender_def cleanup_def
      initializeWidgetProcess_def timer_defs Let_def)

subsection \<open>C3: the poll interval and the timeout\<close>

text \<open>
  Claim C3: the poll interval and the 10-second timeout are cancelled together, as soon
  as a poll tick finds the provider or the timeout fires; neither fires afterwards.

  The tick that finds the provider clears its own interval only (line 95). The source
  evaluated on a component mounted while the provider is not defined, where the provider
  appears before the first tick after the mount timer: the tick loads the widget, the
  timeout is still pending, and when it fires it writes the warning that initialization
  failed.
\<close>

theorem C3_timeout_survives_successful_poll:
  "let s = run [Fire 0, SetProvider (Some (\<lambda>k opts. ([''button''], None))), Fire 1]
             (mount None None :: unit component)
   in isWidgetLoaded s
      \<and> timers s = [(2, TimeoutId 1)]
      \<and> trace (fire 2 s) = trace s @ [ConsoleWarn ''Failed to initialize widget after timeout'']"
  by (simp add: fire_def mount_def initializeWidgetProcess_def initializeWidget_def timer_defs Let_def)

subsection \<open>C4: the re-entry guard\<close>

text \<open>
  Claim C4 says that the "already initialized" flag is reset only by \<open>cleanup\<close>. In the
  source \<open>cleanup\<close> never touches it. On a loaded component the flag is set; it is still
  set after \<open>cleanup\<close>, and after unmount; \<open>reinitialize\<close> clears it (line 56), and so does
  the \<open>catch\<close> of \<open>initializeWidget\<close> (line 169).
\<close>

theorem C4_flag_reset_counterexample:
  "let s = fire 0 (mount None (Some (\<lambda>k opts. ([], None))) :: unit component)
   in hasInitialized s
      \<and> hasInitialized (cleanup s)
      \<and> hasInitialized (unmount s)
      \<and> \<not> hasInitialized (reinitialize s)
      \<and> \<not> hasInitialized
           (initializeWidget 0 (s\<lparr>initializeDiroWidget := Some (\<lambda>k opts. ([], Some ''boom''))\<rparr>))"
  by (simp add: fire_def mount_def unmount_def cleanup_def reinitialize_def initializeWidgetProcess_def
      initializeWidget_def simplifiedInstance_def timer_defs Let_def)

text \<open>
  Claim C4, amended: the component holds at most one handle, and in every state it can
  reach it holds one only while the "already initialized" flag is set; while the flag is
  set, a new call of \<open>initializeWidgetProcess\<close> does not proceed (the state is unchanged:
  no timer is armed, no handle is built); \<open>cleanup\<close> leaves the flag as it is;
  \<open>reinitialize\<close> clears it; and of all the events of a component, \<open>reinitialize\<close> is the
  only one after which a flag that was set is cleared.
\<close>

theorem C4_guard_and_its_reset:
  "(widgetInstance (run es (mount u w)) = None \<or> hasInitialized (run es (mount u w)))
   \<and> (hasInitialized s \<longrightarrow> initializeWidgetProcess k s = (s, None))
   \<and> hasInitialized (cleanup s) = hasInitialized s
   \<and> \<not> hasInitialized (reinitialize s)
   \<and> (hasInitialized s \<and> \<not> hasInitialized (step e s) \<longrightarrow> e = Reinitialize)"
proof -
  have g: "widgetInstance (run es (mount u w)) = None \<or> hasInitialized (run es (mount u w))"
    using guarded_reachable [of es u w] by (simp add: guarded_def)
  show ?thesis
    using g hasInitialized_guard [of s k] hasInitialized_cleanup [of s]
      hasInitialized_reinitialize [of s] hasInitialized_step [of s e]
    by blast
qed

theorem C4_guard_and_its_reset_witness:
  "hasInitialized (fire 0 (mount None (Some (\<lambda>k opts. ([], None))) :: unit component))
   \<and> initializeWidgetProcess 5 (fire 0 (mount None (Some (\<lambda>k opts. ([], None))) :: unit component))
       = (fire 0 (mount None (Some (\<lambda>k opts. ([], None)))), None)
   \<and> hasInitialized (cleanup (fire 0 (mount None (Some (\<lambda>k opts. ([], None))) :: unit component)))
   \<and> \<not> hasInitialized (step Reinitialize (fire 0 (mount None (Some (\<lambda>k opts. ([], None))) :: unit component)))"
proof -
  have h: "hasInitialized (fire 0 (mount None (Some (\<lambda>k opts. ([], None))) :: unit component))"
    by (simp add: fire_def mount_def initializeWidgetProcess_def timer_defs)
  show ?thesis
    using h C4_guard_and_its_reset
      [of "[] :: unit event list" None None "fire 0 (mount None (Some (\<lambda>k opts. ([], None))) :: unit component)"
          5 Reinitialize]
    by simp
qed

subsection \<open>C5: \<open>reinitialize\<close>\<close>

text \<open>
  Claim C5 says that a call of \<open>reinitialize\<close> schedules exactly one fresh initialize
  attempt. The call arms one timer, but it also changes \<open>containerKey\<close>, and the render
  that follows re-runs the effect of lines 112-115, which arms a second one. On a freshly
  mounted component two timers for \<open>initializeWidgetProcess\<close> are pending after
  \<open>reinitialize\<close> and the render; while the provider is not defined each of them starts
  a poll interval and a timeout of its own.
\<close>

theorem C5_two_attempts_counterexample:
  "timers (run [Reinitialize, Rerender] (mount None None :: unit component)) =
     [(1, ReinitTimer 0), (2, MountTimer 1)]
   \<and> timers (run [Reinitialize, Rerender, Fire 1, Fire 2] (mount None None :: unit component)) =
     [(3, CheckInterval 0), (4, TimeoutId 3), (5, CheckInterval 1), (6, TimeoutId 5)]"
  by (simp add: fire_def mount_def reinitialize_def rerender_def cleanup_def
      initializeWidgetProcess_def timer_defs Let_def)

text \<open>
  Claim C5, amended: every call of \<open>reinitialize\<close> on a mounted component, loaded or not,
  tears down the widget at once (\<open>destroy\<close> is called exactly once on the old handle if
  there is one and not at all otherwise, the container is emptied, the loaded flag and
  the re-entry guard are cleared), increases the container generation by one, and arms
  exactly one timer of 100 ms for a fresh initialize attempt; the render that the new
  generation causes cancels the pending mount timer and arms a second attempt, 300 ms
  later, so that two attempts are scheduled after it.
\<close>

theorem C5_reinitialize:
  assumes "coherent s" and "mounted s"
  shows "widgetInstance (reinitialize s) = None
     \<and> \<not> isWidgetLoaded (reinitialize s)
     \<and> (containerRef (reinitialize s) = None \<or> containerRef (reinitialize s) = Some [])
     \<and> destroyCalls (trace (reinitialize s)) =
         destroyCalls (trace s) + (if widgetInstance s = None then 0 else 1)
     \<and> containerKey (reinitialize s) = containerKey s + 1
     \<and> \<not> hasInitialized (reinitialize s)
     \<and> timers (reinitialize s) = timers s @ [(nextTimer s, ReinitTimer (renderKey s))]
     \<and> delay (ReinitTimer (renderKey s)) = 100
     \<and> timers (rerender (reinitialize s)) =
         filter (\<lambda>p. fst p \<noteq> mountTimer s) (timers s) @
           [(nextTimer s, ReinitTimer (renderKey s)),
            (Suc (nextTimer s), MountTimer (containerKey s + 1))]
     \<and> delay (MountTimer (containerKey s + 1)) = 300"
proof -
  have a: "widgetInstance (reinitialize s) = None"
    using assms(1) by (simp add: reinitialize_unfold widgetInstance_cleanup_coherent)
  have b: "\<not> isWidgetLoaded (reinitialize s)"
    using assms(1) by (simp add: reinitialize_unfold isWidgetLoaded_cleanup)
  have c: "containerRef (reinitialize s) = None \<or> containerRef (reinitialize s) = Some []"
    using containerRef_cleanup [of s] by (simp add: reinitialize_unfold)
  have d: "destroyCalls (trace (reinitialize s)) =
         destroyCalls (trace s) + (if widgetInstance s = None then 0 else 1)"
    using assms(1)
    by (auto simp add: reinitialize_unfold destroyCalls_cleanup coherent_def split: option.splits)
  have e: "containerKey (reinitialize s) = containerKey s + 1
     \<and> \<not> hasInitialized (reinitialize s)
     \<and> timers (reinitialize s) = timers s @ [(nextTimer s, ReinitTimer (renderKey s))]"
    by (simp add: reinitialize_unfold)
  show ?thesis
    using a b c d e timers_rerender_reinitialize [OF assms] by simp
qed

text \<open>The amended claim on a loaded component: one \<open>destroy\<close>, generation 1, two attempts.\<close>

theorem C5_reinitialize_witness:
  "coherent (run [Fire 0] (mount None (Some (\<lambda>k opts. ([], None))) :: unit component))
   \<and> mounted (run [Fire 0] (mount None (Some (\<lambda>k opts. ([], None))) :: unit component))
   \<and> widgetInstance (reinitialize (run [Fire 0] (mount None (Some (\<lambda>k opts. ([], None))) :: unit component))) = None
   \<and> destroyCalls (trace (reinitialize (run [Fire 0] (mount None (Some (\<lambda>k opts. ([], None))) :: unit component)))) = 1
   \<and> containerKey (reinitialize (run [Fire 0] (mount None (Some (\<lambda>k opts. ([], None))) :: unit component))) = 1
   \<and> timers (rerender (reinitialize (run [Fire 0] (mount None (Some (\<lambda>k opts. ([], None))) :: unit component)))) =
       [(1, ReinitTimer 0), (2, MountTimer 1)]"
proof -
  let ?s = "run [Fire 0] (mount None (Some (\<lambda>k opts. ([], None))) :: unit component)"
  have h: "coherent ?s" by (rule coherent_reachable)
  have m: "mounted ?s"
    by (simp add: fire_def mount_def initializeWidgetProcess_def initializeWidget_def timer_defs Let_def)
  have f: "widgetInstance ?s = Some simplifiedInstance \<and> trace ?s = [ProviderCalled 0 (widgetOptions None)]
      \<and> containerKey ?s = 0 \<and> renderKey ?s = 0 \<and> timers ?s = [] \<and> nextTimer ?s = 1 \<and> mountTimer ?s = 0"
    by (simp add: fire_def mount_def initializeWidgetProcess_def initializeWidget_def timer_defs Let_def)
  have d: "destroyCalls (trace ?s) = 0"
    using f by (simp add: destroyCalls_def)
  show ?thesis
    using h m d f C5_reinitialize [OF h m] by simp
qed

subsection \<open>C6: the target URL\<close>

text \<open>
  Claim C6: for every tracking identifier the target URL handed to the provider is the
  fixed base \<open>https://verification.diro.io/?buttonid=O.c117bd44-8cfa-42df-99df-c4ad2ba6c6f5-Z6Jc\<close>
  followed by \<open>&trackid=\<close> and the identifier; the identifier \<open>abc123\<close> gives a URL that ends
  in \<open>trackid=abc123\<close>, an absent one a URL that ends in \<open>trackid=\<close>. The last conjunct
  says that these are the options the provider is called with.
\<close>

theorem C6_targetUrl:
  "targetUrl (widgetOptions u) =
     ''https://verification.diro.io/?buttonid=O.c117bd44-8cfa-42df-99df-c4ad2ba6c6f5-Z6Jc''
       @ ''&trackid='' @ (case u of None \<Rightarrow> [] | Some x \<Rightarrow> x)
   \<and> targetUrl (widgetOptions (Some ''abc123'')) =
       ''https://verification.diro.io/?buttonid=O.c117bd44-8cfa-42df-99df-c4ad2ba6c6f5-Z6Jc&trackid=abc123''
   \<and> targetUrl (widgetOptions None) =
       ''https://verification.diro.io/?buttonid=O.c117bd44-8cfa-42df-99df-c4ad2ba6c6f5-Z6Jc&trackid=''
   \<and> trace (fire 0 (mount u (Some (\<lambda>k opts. ([], None))))) = [ProviderCalled 0 (widgetOptions u)]"
  by (simp add: widgetOptions_def targetUrl_of_def fire_def mount_def initializeWidgetProcess_def
      initializeWidget_def timer_defs Let_def split: option.splits)

subsection \<open>C7: the timeout\<close>

text \<open>
  Claim C7: if the provider never becomes available within the 10-second timeout, the
  timeout handler clears the poll timer, so that no further polling occurs, a warning is
  logged, and the component stays not loaded until \<open>reinitialize\<close> is called.

  First conjunct: whenever the timeout of an attempt fires, it leaves the timer table
  together with the poll interval of that attempt, the warning is written, and nothing
  else changes. Second: its delay is 10000 ms. Third: on a component mounted while the
  provider is not defined, after the mount timer, any number \<open>n\<close> of poll ticks and the
  timeout, no timer is left and the component is not loaded; and it is not loaded
  after any further events, the provider appearing among them, unless one of them is
  \<open>reinitialize\<close>.
\<close>

theorem C7_timeout_abandons_attempt:
  "(map_of (timers s) t = Some (TimeoutId c) \<longrightarrow>
      fire t s = s\<lparr>timers := filter (\<lambda>p. fst p \<noteq> c) (filter (\<lambda>p. fst p \<noteq> t) (timers s)),
                  trace := trace s @ [ConsoleWarn ''Failed to initialize widget after timeout'']\<rparr>)
   \<and> delay (TimeoutId c) = 10000
   \<and> (Reinitialize \<notin> set es \<longrightarrow>
        (let s' = run (Fire 0 # replicate n (Fire 1) @ [Fire 2]) (mount u None)
         in timers s' = []
            \<and> trace s' = [ConsoleWarn ''Failed to initialize widget after timeout'']
            \<and> \<not> isWidgetLoaded s'
            \<and> \<not> isWidgetLoaded (run es s')))"
proof -
  let ?s' = "run (Fire 0 # replicate n (Fire 1) @ [Fire 2]) (mount u None) :: 'b component"
  have q: "quiescent ?s'"
    unfolding timeout_after_mount by (simp add: quiescent_def mount_def)
  have f: "timers ?s' = [] \<and> trace ?s' = [ConsoleWarn ''Failed to initialize widget after timeout'']
           \<and> \<not> isWidgetLoaded ?s'"
    unfolding timeout_after_mount by (simp add: mount_def)
  have r: "Reinitialize \<notin> set es \<longrightarrow> \<not> isWidgetLoaded (run es ?s')"
    using quiescent_run [OF q] by (simp add: quiescent_def)
  show ?thesis using f r fire_TimeoutId [of s t c] by (simp add: Let_def)
qed

theorem C7_timeout_abandons_attempt_witness:
  "map_of (timers (fire 0 (mount None None :: unit component))) 2 = Some (TimeoutId 1)
   \<and> fire 2 (fire 0 (mount None None :: unit component)) =
       (fire 0 (mount None None))
         \<lparr>timers := filter (\<lambda>p. fst p \<noteq> 1) (filter (\<lambda>p. fst p \<noteq> 2) (timers (fire 0 (mount None None :: unit component)))),
          trace := trace (fire 0 (mount None None :: unit component)) @
                     [ConsoleWarn ''Failed to initialize widget after timeout'']\<rparr>
   \<and> Reinitialize \<notin> set [SetProvider (Some (\<lambda>k opts. ([], None))), Fire 1, Rerender, UpdateWidget (), Fire 2]
   \<and> \<not> isWidgetLoaded
        (run [SetProvider (Some (\<lambda>k opts. ([], None))), Fire 1, Rerender, UpdateWidget (), Fire 2]
           (run (Fire 0 # replicate 2 (Fire 1) @ [Fire 2]) (mount None None :: unit component)))"
proof -
  have h: "map_of (timers (fire 0 (mount None None :: unit component))) 2 = Some (TimeoutId 1)"
    by (simp add: fire_mount_without_provider)
  have e: "Reinitialize \<notin> set [SetProvider (Some (\<lambda>k opts. ([], None))), Fire 1, Rerender, UpdateWidget (), Fire 2 :: unit event]"
    by simp
  show ?thesis
    using h e
      C7_timeout_abandons_attempt [of "fire 0 (mount None None :: unit component)" 2 1
        "[SetProvider (Some (\<lambda>k opts. ([], None))), Fire 1, Rerender, UpdateWidget (), Fire 2]"
        2 None]
    by (simp only: Let_def) blast
qed

subsection \<open>C8: \<open>updateWidget\<close> without and with a handle\<close>

text \<open>
  Claim C8: for every payload, \<open>updateWidget\<close> on a component that holds no handle (as it
  does before any successful initialize) is a no-op: nothing is raised and the state is
  unchanged; when a handle is held, the payload is passed to its \<open>update\<close> method, whose
  effect and exception are those of the call.
\<close>

theorem C8_updateWidget:
  "(widgetInstance s = None \<longrightarrow> updateWidget d s = (s, None))
   \<and> (widgetInstance s = Some h \<longrightarrow>
        updateWidget d s =
          (s\<lparr>containerRef := fst (update h d (containerRef s))\<rparr>, snd (update h d (containerRef s))))
   \<and> widgetInstance (mount u w) = None"
  by (simp add: updateWidget_def mount_def split: prod.splits)

theorem C8_updateWidget_witness:
  "widgetInstance (mount None None :: nat component) = None
   \<and> updateWidget 7 (mount None None :: nat component) = (mount None None, None)
   \<and> widgetInstance
        ((mount None None :: nat component)
           \<lparr>widgetInstance :=
              Some \<lparr>update = (\<lambda>d c. (Some [WidgetContainer d []], Some ''late'')), destroy = None\<rparr>\<rparr>)
       = Some \<lparr>update = (\<lambda>d c. (Some [WidgetContainer d []], Some ''late'')), destroy = None\<rparr>
   \<and> updateWidget 7
        ((mount None None :: nat component)
           \<lparr>widgetInstance :=
              Some \<lparr>update = (\<lambda>d c. (Some [WidgetContainer d []], Some ''late'')), destroy = None\<rparr>\<rparr>)
       = ((mount None None)
           \<lparr>widgetInstance :=
              Some \<lparr>update = (\<lambda>d c. (Some [WidgetContainer d []], Some ''late'')), destroy = None\<rparr>,
            containerRef := Some [WidgetContainer 7 []]\<rparr>, Some ''late'')"
  using C8_updateWidget [of "mount None None :: nat component" 7 simplifiedInstance None None]
    C8_updateWidget
      [of "(mount None None :: nat component)
           \<lparr>widgetInstance :=
              Some \<lparr>update = (\<lambda>d c. (Some [WidgetContainer d []], Some ''late'')), destroy = None\<rparr>\<rparr>"
          7 "\<lparr>update = (\<lambda>d c. (Some [WidgetContainer d []], Some ''late'')), destroy = None\<rparr>"
          None None]
  by (simp add: mount_def)

subsection \<open>C9: \<open>cleanup\<close>\<close>

text \<open>
  Claim C9: \<open>cleanup\<close> is idempotent and safe when no widget is loaded. Calling it twice
  gives the state that calling it once gives. Without a handle it only empties the
  container. In every case the container is empty afterwards. When the handle has a
  \<open>destroy\<close> method it is called once, what it raises is logged and stops nothing: the
  handle is dropped and the loaded flag is reset all the same. On a coherent component
  the loaded flag is reset and no handle is left.
\<close>

theorem C9_cleanup:
  "cleanup (cleanup s) = cleanup s
   \<and> (widgetInstance s = None \<longrightarrow>
        cleanup s = (case containerRef s of None \<Rightarrow> s | Some kids \<Rightarrow> s\<lparr>containerRef := Some []\<rparr>))
   \<and> (containerRef (cleanup s) = None \<or> containerRef (cleanup s) = Some [])
   \<and> (widgetInstance s = Some h \<and> destroy h = Some d \<longrightarrow>
        trace (cleanup s) =
          trace s @ DestroyCalled #
            (case snd (d (containerRef s)) of
               None \<Rightarrow> []
             | Some e \<Rightarrow> [ConsoleError ''Error destroying widget:'' (Some e)])
        \<and> widgetInstance (cleanup s) = None
        \<and> \<not> isWidgetLoaded (cleanup s))
   \<and> (coherent s \<longrightarrow> widgetInstance (cleanup s) = None \<and> \<not> isWidgetLoaded (cleanup s))"
proof -
  have a: "widgetInstance s = None \<longrightarrow>
        cleanup s = (case containerRef s of None \<Rightarrow> s | Some kids \<Rightarrow> s\<lparr>containerRef := Some []\<rparr>)"
    by (simp add: cleanup_def)
  have b: "widgetInstance s = Some h \<and> destroy h = Some d \<longrightarrow>
        widgetInstance (cleanup s) = None \<and> \<not> isWidgetLoaded (cleanup s)"
    by (simp add: cleanup_def console_def Let_def split: option.splits prod.splits)
  show ?thesis
    using a b cleanup_idem [of s] containerRef_cleanup [of s] trace_cleanup_destroy [of s h d]
      widgetInstance_cleanup_coherent [of s] isWidgetLoaded_cleanup [of s]
    by blast
qed

text \<open>
  On a freshly mounted component, and on a loaded one whose handle raises from
  \<open>destroy\<close> and leaves the container as it found it.
\<close>

theorem C9_cleanup_witness:
  "widgetInstance (mount None None :: unit component) = None
   \<and> cleanup (mount None None :: unit component) = mount None None
   \<and> widgetInstance
       ((mount None None :: unit component)
          \<lparr>containerRef := Some [WidgetContainer 0 [''button'']],
           widgetInstance := Some \<lparr>update = (\<lambda>d c. (c, None)), destroy = Some (\<lambda>c. (c, Some ''stuck''))\<rparr>,
           isWidgetLoaded := True\<rparr>)
       = Some \<lparr>update = (\<lambda>d c. (c, None)), destroy = Some (\<lambda>c. (c, Some ''stuck''))\<rparr>
   \<and> destroy \<lparr>update = (\<lambda>(d :: unit) c. (c, None)), destroy = Some (\<lambda>c. (c, Some ''stuck''))\<rparr>
       = Some (\<lambda>c. (c, Some ''stuck''))
   \<and> coherent
       ((mount None None :: unit component)
          \<lparr>containerRef := Some [WidgetContainer 0 [''button'']],
           widgetInstance := Some \<lparr>update = (\<lambda>d c. (c, None)), destroy = Some (\<lambda>c. (c, Some ''stuck''))\<rparr>,
           isWidgetLoaded := True\<rparr>)
   \<and> trace (cleanup
       ((mount None None :: unit component)
          \<lparr>containerRef := Some [WidgetContainer 0 [''button'']],
           widgetInstance := Some \<lparr>update = (\<lambda>d c. (c, None)), destroy = Some (\<lambda>c. (c, Some ''stuck''))\<rparr>,
           isWidgetLoaded := True\<rparr>))
       = [DestroyCalled, ConsoleError ''Error destroying widget:'' (Some ''stuck'')]
   \<and> \<not> isWidgetLoaded (cleanup
       ((mount None None :: unit component)
          \<lparr>containerRef := Some [WidgetContainer 0 [''button'']],
           widgetInstance := Some \<lparr>update = (\<lambda>d c. (c, None)), destroy = Some (\<lambda>c. (c, Some ''stuck''))\<rparr>,
           isWidgetLoaded := True\<rparr>))"
  using C9_cleanup [of "mount None None :: unit component" simplifiedInstance "\<lambda>c. (c, None)"]
    C9_cleanup
      [of "(mount None None :: unit component)
          \<lparr>containerRef := Some [WidgetContainer 0 [''button'']],
           widgetInstance := Some \<lparr>update = (\<lambda>d c. (c, None)), destroy = Some (\<lambda>c. (c, Some ''stuck''))\<rparr>,
           isWidgetLoaded := True\<rparr>"
          "\<lparr>update = (\<lambda>d c. (c, None)), destroy = Some (\<lambda>c. (c, Some ''stuck''))\<rparr>"
          "\<lambda>c. (c, Some ''stuck'')"]
  by (simp add: mount_def coherent_def)

subsection \<open>C10: the \<open>update\<close> of the component's own handle\<close>

text \<open>
  Claim C10: the handle the component builds has an \<open>update\<close> method that does nothing, so
  in every state a mounted component can reach, after a successful initialize too,
  \<open>updateWidget\<close> raises nothing and leaves the whole state, the container included, as
  it was, for every payload. The last conjunct: in the state after a successful
  initialize the component does hold that handle.
\<close>

theorem C10_update_does_nothing:
  "update simplifiedInstance d c = (c, None)
   \<and> updateWidget d (run es (mount u w)) = (run es (mount u w), None)
   \<and> widgetInstance (run [Fire 0] (mount u (Some (\<lambda>k opts. ([], None))))) = Some simplifiedInstance"
proof -
  have "own (run es (mount u w))"
    by (rule own_run) (rule own_mount)
  then have "updateWidget d (run es (mount u w)) = (run es (mount u w), None)"
    by (rule updateWidget_own)
  then show ?thesis
    by (simp add: simplifiedInstance_def fire_def mount_def initializeWidgetProcess_def
        initializeWidget_def timer_defs Let_def)
qed

end
